theory Spec2Isabelle
  imports Complex_Main "HOL-Library.Multiset" "HOL-Library.Log_Nat" "HOL-Library.Sublist"
begin

section \<open>Cross-section aligner: the threshold search of \<open>alignCrossSections.py\<close>\<close>

text \<open>
  The development follows \<open>main\<close> from the point where the reference directory is listed
  (the computation of the threshold ranges, the log header, the loop over the reference
  files) and \<open>alignImages\<close>. Python integers are \<open>int\<close>, exceptions are values of
  \<open>pyexn\<close>, a function that may raise returns \<open>pyexn + 'a\<close> with \<open>Inl\<close> for the
  exception. The calls into OpenCV are parameters of the model.
\<close>

subsection \<open>Exceptions\<close>

datatype pyexn =
    ValueError
  | TypeError
  | AttributeError
  | IndexError
  | UnboundLocalError
  | ZeroDivisionError
  | cv2_error

subsection \<open>Python's \<open>range\<close> and the threshold ranges\<close>

text \<open>
  \<open>range(start, stop, step)\<close>: with a positive step the values \<open>start, start + step, ...\<close>
  below \<open>stop\<close>, with a negative step those above \<open>stop\<close>, and \<open>ValueError\<close> when the
  step is zero.
\<close>

function range_up :: "int \<Rightarrow> int \<Rightarrow> int \<Rightarrow> int list" where
  "range_up i stop step =
     (if 0 < step \<and> i < stop then i # range_up (i + step) stop step else [])"
  by pat_completeness auto
termination
  by (relation "measure (\<lambda>(i, stop, step). nat (stop - i))") auto

function range_down :: "int \<Rightarrow> int \<Rightarrow> int \<Rightarrow> int list" where
  "range_down i stop step =
     (if step < 0 \<and> stop < i then i # range_down (i + step) stop step else [])"
  by pat_completeness auto
termination
  by (relation "measure (\<lambda>(i, stop, step). nat (i - stop))") auto

declare range_up.simps [simp del] range_down.simps [simp del]

definition py_range :: "int \<Rightarrow> int \<Rightarrow> int \<Rightarrow> pyexn + int list" where
  "py_range start stop step =
     (if step = 0 then Inl ValueError
      else if 0 < step then Inr (range_up start stop step)
      else Inr (range_down start stop step))"

text \<open>
  Lines 223 to 230, for one image kind: \<open>tresholdMaxChange...\<close> is
  \<open>np.minimum(255 - treshold, tresholdMaxChange)\<close>, \<open>tresholdMaxDecrease...\<close> is
  \<open>np.minimum(treshold, tresholdMaxChange)\<close>, and the range is the list
  \<open>[*range(0, maxChange, steps), *range(-steps, -maxDecrease, -steps)]\<close>. The first
  \<open>range\<close> is evaluated first, so its exception is the one raised. \<open>np.minimum\<close> is
  the minimum of two integers, for a max change that fits NumPy's 64-bit integers.
\<close>

definition tresholdRange :: "int \<Rightarrow> int \<Rightarrow> int \<Rightarrow> pyexn + int list" where
  "tresholdRange treshold tresholdChangeSteps tresholdMaxChange =
     (let tresholdMaxIncrease = min (255 - treshold) tresholdMaxChange;
          tresholdMaxDecrease = min treshold tresholdMaxChange
      in case py_range 0 tresholdMaxIncrease tresholdChangeSteps of
           Inl e \<Rightarrow> Inl e
         | Inr ascending \<Rightarrow>
             (case py_range (- tresholdChangeSteps) (- tresholdMaxDecrease) (- tresholdChangeSteps) of
                Inl e \<Rightarrow> Inl e
              | Inr descending \<Rightarrow> Inr (ascending @ descending)))"

text \<open>
  The grid as the specification words it: the multiples \<open>0, s, 2s, ...\<close> strictly below
  \<open>min (255 - b) m\<close>, then the negated multiples \<open>-s, -2s, ...\<close> strictly above
  \<open>- min b m\<close>. With \<open>s \<ge> 1\<close> a multiple \<open>k * s\<close> below a bound has \<open>k\<close> below it too,
  which bounds the enumeration.
\<close>

definition spec_ascending :: "int \<Rightarrow> int \<Rightarrow> int \<Rightarrow> int list" where
  "spec_ascending b s m =
     filter (\<lambda>off. off < min (255 - b) m) (map (\<lambda>k. int k * s) [0 ..< nat (min (255 - b) m)])"

definition spec_descending :: "int \<Rightarrow> int \<Rightarrow> int \<Rightarrow> int list" where
  "spec_descending b s m =
     filter (\<lambda>off. - min b m < off) (map (\<lambda>k. - (int k * s)) [1 ..< Suc (nat (min b m))])"


subsection \<open>The product \<open>len(matches) * 0.9\<close> in double precision\<close>

text \<open>
  A non-negative double is a pair \<open>(m, e)\<close> standing for \<open>m * 2 ^ e\<close>. \<open>round53\<close>
  rounds an exact value to a mantissa of at most 53 bits, to nearest and ties to even, as
  the conversion of an \<open>int\<close> to \<open>float\<close> and the multiplication of two doubles do.
  \<open>int(x)\<close> truncates towards zero. Overflow and subnormal numbers do not arise for the
  length of a list and are left out.
\<close>

type_synonym pyfloat = "int \<times> int"

definition round53 :: "int \<Rightarrow> int \<Rightarrow> pyfloat" where
  "round53 p e =
     (let sh = bitlen p - 53
      in if sh \<le> 0 then (p, e)
         else let q = p div 2 ^ nat sh;
                  r = p mod 2 ^ nat sh;
                  half = 2 ^ (nat sh - 1)
              in (if half < r \<or> (r = half \<and> odd q) then q + 1 else q, e + sh))"

definition float_of_int :: "int \<Rightarrow> pyfloat" where
  "float_of_int n = round53 n 0"

definition float_mul :: "pyfloat \<Rightarrow> pyfloat \<Rightarrow> pyfloat" where
  "float_mul x y = round53 (fst x * fst y) (snd x + snd y)"

definition int_of_float :: "pyfloat \<Rightarrow> int" where
  "int_of_float x =
     (if 0 \<le> snd x then fst x * 2 ^ nat (snd x) else fst x div 2 ^ nat (- snd x))"

text \<open>The literal \<open>0.9\<close> is the double \<open>0x1.ccccccccccccdp-1\<close>.\<close>

definition float_0_9 :: pyfloat where
  "float_0_9 = (8106479329266893, - 53)"

subsection \<open>Matches: sorting and the top 90 percent\<close>

text \<open>
  A \<open>cv2.DMatch\<close> as the matcher returns it: indices into the two keypoint lists and the
  Hamming distance of the two descriptors, a count of bits.
\<close>

record DMatch =
  queryIdx :: nat
  trainIdx :: nat
  distance :: nat

text \<open>
  Lines 367 and 370: \<open>matches.sort(key = lambda x: x.distance)\<close>, a stable sort, then
  \<open>matches[:int(len(matches)*0.9)]\<close>.
\<close>

definition topMatches :: "DMatch list \<Rightarrow> DMatch list" where
  "topMatches matches =
     (let matches = sort_key distance matches
      in take (nat (int_of_float (float_mul (float_of_int (int (length matches))) float_0_9)))
           matches)"

subsection \<open>\<open>alignImages\<close>\<close>

text \<open>
  The OpenCV functions that \<open>alignImages\<close> calls are fields of a record, hence
  deterministic functions of their arguments. \<open>imread\<close> returns \<open>None\<close> for a file it
  cannot read. \<open>detectAndCompute\<close> returns the keypoints (their \<open>pt\<close>) and the
  descriptors, \<open>None\<close> when there are none. The matcher and the two estimators may raise;
  \<open>findHomography\<close> returns the inlier mask and \<open>estimateAffinePartial2D\<close> the 2 by 3
  matrix, each \<open>None\<close> when no transform is found (the homography matrix and the second
  mask are never read by \<open>alignImages\<close> and are left out).
\<close>

type_synonym point = "real \<times> real"
type_synonym affine = "(real \<times> real \<times> real) \<times> (real \<times> real \<times> real)"

record ('img, 'gray, 'desc) cv2 =
  imread :: "string \<Rightarrow> 'img option"
  cvtColor :: "'img \<Rightarrow> 'gray"
  shape :: "'gray \<Rightarrow> nat \<times> nat"
  threshold :: "'gray \<Rightarrow> int \<Rightarrow> 'gray"
  detectAndCompute :: "'gray \<Rightarrow> point list \<times> 'desc option"
  bfMatch :: "'desc option \<Rightarrow> 'desc option \<Rightarrow> pyexn + DMatch list"
  findHomography :: "point list \<Rightarrow> point list \<Rightarrow> pyexn + nat list option"
  estimateAffinePartial2D :: "point list \<Rightarrow> point list \<Rightarrow> pyexn + affine option"
  warpAffine :: "'img \<Rightarrow> affine \<Rightarrow> nat \<times> nat \<Rightarrow> 'img"
  addWeighted :: "'img \<Rightarrow> real \<Rightarrow> 'img \<Rightarrow> real \<Rightarrow> real \<Rightarrow> 'img"

text \<open>\<open>[keyPoints[i].pt for i in ...]\<close>: an index past the end raises \<open>IndexError\<close>.\<close>

fun pts_at :: "point list \<Rightarrow> nat list \<Rightarrow> pyexn + point list" where
  "pts_at keyPoints [] = Inr []"
| "pts_at keyPoints (i # idxs) =
     (if i < length keyPoints
      then (case pts_at keyPoints idxs of
              Inl e \<Rightarrow> Inl e
            | Inr ps \<Rightarrow> Inr (keyPoints ! i # ps))
      else Inl IndexError)"

text \<open>\<open>np.arctan2\<close> and \<open>np.degrees\<close> on the reals.\<close>

definition arctan2 :: "real \<Rightarrow> real \<Rightarrow> real" where
  "arctan2 y x =
     (if 0 < x then arctan (y / x)
      else if x < 0 \<and> 0 \<le> y then arctan (y / x) + pi
      else if x < 0 then arctan (y / x) - pi
      else if 0 < y then pi / 2
      else if y < 0 then - pi / 2
      else 0)"

definition degrees :: "real \<Rightarrow> real" where
  "degrees r = r * 180 / pi"

text \<open>
  Lines 359 to 374: detection, matching, sorting, truncation and the two point lists.
\<close>

definition matchFeatures ::
  "('img, 'gray, 'desc) cv2 \<Rightarrow> 'gray \<Rightarrow> 'gray \<Rightarrow> pyexn + (point list \<times> point list)" where
  "matchFeatures cv targetImageGrayscale referenceImageGrayscale =
     (let (keyPoints1, descriptor1) = detectAndCompute cv targetImageGrayscale;
          (keyPoints2, descriptor2) = detectAndCompute cv referenceImageGrayscale
      in case bfMatch cv descriptor1 descriptor2 of
           Inl e \<Rightarrow> Inl e
         | Inr matches \<Rightarrow>
             (let matches = topMatches matches
              in case pts_at keyPoints1 (map queryIdx matches) of
                   Inl e \<Rightarrow> Inl e
                 | Inr src_pts \<Rightarrow>
                     (case pts_at keyPoints2 (map trainIdx matches) of
                        Inl e \<Rightarrow> Inl e
                      | Inr dst_pts \<Rightarrow> Inr (src_pts, dst_pts))))"

text \<open>
  Lines 376 to 394. \<open>mask.ravel()\<close> raises \<open>AttributeError\<close> when the mask of the
  homography (\<open>homographyMask\<close> here) is \<open>None\<close>,
  and \<open>transformationRigidMatrix[0,1]\<close> raises \<open>TypeError\<close> when the matrix is \<open>None\<close>;
  there is no other test of the estimators' results. The result is the tuple
  \<open>(scaleFactor, rotationAngle, transformedImage, alignedImageOverlapedWithRefImage)\<close>.
\<close>

definition estimateAndWarp ::
  "('img, 'gray, 'desc) cv2 \<Rightarrow> 'img \<Rightarrow> 'img \<Rightarrow> nat \<times> nat \<Rightarrow> point list \<Rightarrow> point list
     \<Rightarrow> pyexn + (real \<times> real \<times> 'img \<times> 'img)" where
  "estimateAndWarp cv targetImageColor referenceImageColor dsize src_pts dst_pts =
     (case findHomography cv src_pts dst_pts of
        Inl e \<Rightarrow> Inl e
      | Inr homographyMask \<Rightarrow>
          (case estimateAffinePartial2D cv src_pts dst_pts of
             Inl e \<Rightarrow> Inl e
           | Inr transformationRigidMatrix \<Rightarrow>
               (case homographyMask of
                  None \<Rightarrow> Inl AttributeError
                | Some matchesMask \<Rightarrow>
                    (case transformationRigidMatrix of
                       None \<Rightarrow> Inl TypeError
                     | Some M \<Rightarrow>
                         (let m00 = fst (fst M);
                              m01 = fst (snd (fst M));
                              rotationAngle = degrees (arctan2 (- m01) m00);
                              scaleFactor = sgn m00 * sqrt (m00\<^sup>2 + m01\<^sup>2);
                              transformedImage = warpAffine cv targetImageColor M dsize;
                              alignedImageOverlapedWithRefImage =
                                addWeighted cv referenceImageColor 0.5 transformedImage 0.7 0
                          in Inr (scaleFactor, rotationAngle, transformedImage,
                                  alignedImageOverlapedWithRefImage))))))"

text \<open>
  Lines 345 to 357, then the two parts above. \<open>cv2.cvtColor\<close> raises \<open>cv2.error\<close> on
  the \<open>None\<close> of an unreadable file. \<open>(width, height)\<close> is the reference image's shape,
  reversed.
\<close>

definition alignImages ::
  "('img, 'gray, 'desc) cv2 \<Rightarrow> int \<Rightarrow> int \<Rightarrow> string \<Rightarrow> string \<Rightarrow> string
     \<Rightarrow> pyexn + (real \<times> real \<times> 'img \<times> 'img)" where
  "alignImages cv tresholdReferenceImage tresholdTargetImage targetFilesDirectory
       referenceFilesDirectory referenceFile =
     (case imread cv (targetFilesDirectory @ referenceFile) of
        None \<Rightarrow> Inl cv2_error
      | Some targetImageColor \<Rightarrow>
          (case imread cv (referenceFilesDirectory @ referenceFile) of
             None \<Rightarrow> Inl cv2_error
           | Some referenceImageColor \<Rightarrow>
               (let targetImageGrayscale = cvtColor cv targetImageColor;
                    referenceImageGrayscale = cvtColor cv referenceImageColor;
                    (height, width) = shape cv referenceImageGrayscale;
                    targetImageGrayscale = threshold cv targetImageGrayscale tresholdTargetImage;
                    referenceImageGrayscale =
                      threshold cv referenceImageGrayscale tresholdReferenceImage
                in case matchFeatures cv targetImageGrayscale referenceImageGrayscale of
                     Inl e \<Rightarrow> Inl e
                   | Inr (src_pts, dst_pts) \<Rightarrow>
                       estimateAndWarp cv targetImageColor referenceImageColor (width, height)
                         src_pts dst_pts)))"

subsection \<open>\<open>main\<close>: configuration, state and the log\<close>

text \<open>
  The options after parsing and the checks of lines 117 to 139. \<open>outputDirectoryArg\<close> is
  the output directory that the set-up code settles on; the variable \<open>outputDirectory\<close>
  itself is assigned to in the loop and belongs to the state.
\<close>

record config =
  referenceFilesDirectory :: string
  targetFilesDirectory :: string
  outputDirectoryArg :: string
  logFileDirectory :: string
  tresholdReferenceImages :: int
  tresholdTargetImages :: int
  tresholdChangeSteps :: int
  tresholdMaxChange :: int
  scaleFactorBoundaries :: "real \<times> real"
  suppressOverlapImages :: bool

definition valid_config :: "config \<Rightarrow> bool" where
  "valid_config cfg \<longleftrightarrow>
     0 \<le> tresholdReferenceImages cfg \<and> tresholdReferenceImages cfg \<le> 255
   \<and> 0 \<le> tresholdTargetImages cfg \<and> tresholdTargetImages cfg \<le> 255
   \<and> 0 \<le> tresholdChangeSteps cfg \<and> 0 \<le> tresholdMaxChange cfg
   \<and> 0 \<le> fst (scaleFactorBoundaries cfg)
   \<and> fst (scaleFactorBoundaries cfg) < snd (scaleFactorBoundaries cfg)"

text \<open>\<open>scaleFactorBoundaries[0] <= scaleFactor <= scaleFactorBoundaries[1]\<close>.\<close>

definition inBounds :: "config \<Rightarrow> real \<Rightarrow> bool" where
  "inBounds cfg scaleFactor \<longleftrightarrow>
     fst (scaleFactorBoundaries cfg) \<le> scaleFactor \<and> scaleFactor \<le> snd (scaleFactorBoundaries cfg)"

text \<open>
  What \<open>main\<close> reads from its surroundings: the command line, the file system and the
  installed versions. The clock is kept apart; \<open>datetime.now()\<close> is read for the name of
  the log file (line 190), for the \<open>Start\<close> line (line 250) and for the \<open>Finished\<close> line
  (line 301).
\<close>

record environment =
  commandLine :: string
  getcwd :: string
  abspath :: "string \<Rightarrow> string"
  normpath :: "string \<Rightarrow> string"
  basename :: "string \<Rightarrow> string"
  listdir :: "string \<Rightarrow> string list"
  isfile :: "string \<Rightarrow> bool"
  pythonVersion :: string
  opencvVersion :: string
  numpyVersion :: string

record clock =
  logNameTime :: string
  startTime :: string
  finishTime :: string

text \<open>
  Lines 190 to 201, for a log file that can be opened where it is first tried.
\<close>

definition logFilePath :: "config \<Rightarrow> environment \<Rightarrow> clock \<Rightarrow> string" where
  "logFilePath cfg env clk =
     (let logFileName = basename env (targetFilesDirectory cfg) @ ''_Log '' @ logNameTime clk @ ''.txt'';
          defaultLogFilePath = getcwd env @ ''/'' @ logFileName
      in if logFileDirectory cfg \<noteq> []
         then normpath env (logFileDirectory cfg @ ''/'' @ logFileName)
         else defaultLogFilePath)"

text \<open>
  The log file as the list of the texts written to it, each with the values it is
  formatted from: the header of lines 236 to 252, one record for a pair (line 275, 282 or
  298) and the last line (line 301).
\<close>

record details =
  d_commandLine :: string
  d_workingDirectory :: string
  d_referenceFilesDirectory :: string
  d_targetFilesDirectory :: string
  d_outputDirectory :: string
  d_logfileLocation :: string
  d_tresholdReferenceImages :: int
  d_tresholdTargetImages :: int
  d_tresholdRangeReferenceImages :: "int list"
  d_tresholdRangeTargetImages :: "int list"
  d_scaleFactorBoundaries :: "real \<times> real"
  d_pythonVersion :: string
  d_opencvVersion :: string
  d_numpyVersion :: string
  d_start :: string

datatype logrec =
    Details details
  | Aligned string int int real real
  | Unsuccesful string
  | AlignError string pyexn
  | Finished string

text \<open>
  The variables of \<open>main\<close> that change while the reference files are processed, and what
  the loop does to the outside: the texts written to the log, the \<open>cv2.imwrite\<close> calls
  (path and image), the \<open>updateProgress\<close> calls of the loop (\<open>fileNumber\<close>,
  \<open>len(referenceFiles)\<close> and the file name) and the \<open>alignImages\<close> calls (the two
  thresholds and the file name). \<open>aligned\<close> holds \<open>rotationAngle\<close>,
  \<open>transformedImage\<close> and \<open>alignedImageOverlapedWithRefImage\<close>, \<open>None\<close> as long as they
  are unbound. \<open>cv2.imwrite\<close>, the writes to the log and \<open>updateProgress\<close> are taken
  not to raise, and no \<open>KeyboardInterrupt\<close> arrives.
\<close>

record 'img state =
  outputDirectory :: string
  fileNumber :: nat
  scaleFactor :: real
  aligned :: "(real \<times> 'img \<times> 'img) option"
  logFile :: "logrec list"
  written :: "(string \<times> 'img) list"
  progressBar :: "(nat \<times> nat \<times> string) list"
  alignCalls :: "(int \<times> int \<times> string) list"

type_synonym 'img aligner =
  "int \<Rightarrow> int \<Rightarrow> string \<Rightarrow> string \<Rightarrow> string \<Rightarrow> pyexn + (real \<times> real \<times> 'img \<times> 'img)"

datatype flow = Normal | Break | Raise pyexn

text \<open>
  One cell of the grid, lines 271 to 276: the body of the inner \<open>for\<close>. \<open>Normal\<close> stands
  for going on with the next \<open>j\<close>, \<open>Break\<close> for the \<open>break\<close> of line 276.
\<close>

definition attempt ::
  "config \<Rightarrow> 'img aligner \<Rightarrow> string \<Rightarrow> int \<Rightarrow> int \<Rightarrow> 'img state \<Rightarrow> flow \<times> 'img state" where
  "attempt cfg al referenceFile i j st =
     (if \<not> inBounds cfg (scaleFactor st)
      then (let tr = tresholdReferenceImages cfg + i;
                tt = tresholdTargetImages cfg + j;
                st = st\<lparr>alignCalls := alignCalls st @ [(tr, tt, referenceFile)]\<rparr>
            in case al tr tt (targetFilesDirectory cfg @ ''/'') (referenceFilesDirectory cfg @ ''/'')
                      referenceFile of
                 Inl e \<Rightarrow> (Raise e, st)
               | Inr (sf, rotationAngle, transformedImage, overlap) \<Rightarrow>
                   (let st = st\<lparr>scaleFactor := sf,
                                 aligned := Some (rotationAngle, transformedImage, overlap)\<rparr>
                    in if inBounds cfg sf
                       then (Break, st\<lparr>logFile := logFile st
                                        @ [Aligned referenceFile tr tt rotationAngle sf]\<rparr>)
                       else (Normal, st)))
      else (Normal, st))"

text \<open>The inner \<open>for j in tresholdRangeTargetImages\<close>, lines 270 to 276.\<close>

fun inner_loop ::
  "config \<Rightarrow> 'img aligner \<Rightarrow> string \<Rightarrow> int \<Rightarrow> int list \<Rightarrow> 'img state \<Rightarrow> flow \<times> 'img state" where
  "inner_loop cfg al referenceFile i [] st = (Normal, st)"
| "inner_loop cfg al referenceFile i (j # js) st =
     (case attempt cfg al referenceFile i j st of
        (Normal, st') \<Rightarrow> inner_loop cfg al referenceFile i js st'
      | (fl, st') \<Rightarrow> (fl, st'))"

text \<open>The outer \<open>for i in tresholdRangeReferenceImages\<close>, lines 269 to 278.\<close>

fun outer_loop ::
  "config \<Rightarrow> 'img aligner \<Rightarrow> string \<Rightarrow> int list \<Rightarrow> int list \<Rightarrow> 'img state \<Rightarrow> flow \<times> 'img state" where
  "outer_loop cfg al referenceFile [] js st = (Normal, st)"
| "outer_loop cfg al referenceFile (i # is) js st =
     (case inner_loop cfg al referenceFile i js st of
        (Raise e, st') \<Rightarrow> (Raise e, st')
      | (fl, st') \<Rightarrow>
          (if inBounds cfg (scaleFactor st') then (Break, st')
           else outer_loop cfg al referenceFile is js st'))"

text \<open>\<open>updateProgress(fileNumber / len(referenceFiles), referenceFile)\<close>, line 293.\<close>

definition updateProgress :: "string list \<Rightarrow> string \<Rightarrow> 'img state \<Rightarrow> 'img state" where
  "updateProgress referenceFiles referenceFile st =
     st\<lparr>progressBar := progressBar st @ [(fileNumber st, length referenceFiles, referenceFile)]\<rparr>"

text \<open>
  The body of \<open>for referenceFile in referenceFiles\<close>, lines 260 to 298. An exception of
  the search is caught by \<open>except Exception\<close> at line 297, after the whole \<open>try\<close> block
  has been left.
\<close>

definition processFile ::
  "config \<Rightarrow> environment \<Rightarrow> 'img aligner \<Rightarrow> int list \<Rightarrow> int list \<Rightarrow> string list \<Rightarrow> string
     \<Rightarrow> 'img state \<Rightarrow> 'img state" where
  "processFile cfg env al tresholdRangeReferenceImages tresholdRangeTargetImages referenceFiles
       referenceFile st =
     (let st = st\<lparr>fileNumber := fileNumber st + 1\<rparr>
      in if isfile env (targetFilesDirectory cfg @ ''/'' @ referenceFile)
         then (let st = st\<lparr>scaleFactor := - 1\<rparr>
               in case outer_loop cfg al referenceFile tresholdRangeReferenceImages
                         tresholdRangeTargetImages st of
                    (Raise e, st) \<Rightarrow> st\<lparr>logFile := logFile st @ [AlignError referenceFile e]\<rparr>
                  | (fl, st) \<Rightarrow>
                      (if \<not> inBounds cfg (scaleFactor st)
                       then updateProgress referenceFiles referenceFile
                              (st\<lparr>logFile := logFile st @ [Unsuccesful referenceFile]\<rparr>)
                       else (let st = st\<lparr>outputDirectory := outputDirectory st @ ''/''\<rparr>
                             in case aligned st of
                                  None \<Rightarrow>
                                    st\<lparr>logFile := logFile st
                                          @ [AlignError referenceFile UnboundLocalError]\<rparr>
                                | Some (rotationAngle, transformedImage, overlap) \<Rightarrow>
                                    (let st = st\<lparr>written := written st
                                                  @ [(outputDirectory st @ referenceFile,
                                                      transformedImage)]\<rparr>;
                                         st = (if \<not> suppressOverlapImages cfg
                                               then st\<lparr>written := written st
                                                      @ [(outputDirectory st @ ''overlap/''
                                                            @ referenceFile, overlap)]\<rparr>
                                               else st)
                                     in updateProgress referenceFiles referenceFile st))))
         else st)"

fun processFiles ::
  "config \<Rightarrow> environment \<Rightarrow> 'img aligner \<Rightarrow> int list \<Rightarrow> int list \<Rightarrow> string list \<Rightarrow> string list
     \<Rightarrow> 'img state \<Rightarrow> 'img state" where
  "processFiles cfg env al rr rt referenceFiles [] st = st"
| "processFiles cfg env al rr rt referenceFiles (referenceFile # rest) st =
     processFiles cfg env al rr rt referenceFiles rest
       (processFile cfg env al rr rt referenceFiles referenceFile st)"

text \<open>
  \<open>main\<close> from line 220 to the end. The result is the exception that ends the program, if
  any, and the state reached: \<open>ValueError\<close> from \<open>range\<close> before anything is written,
  \<open>ZeroDivisionError\<close> from \<open>fileNumber / len(referenceFiles)\<close> at line 257 when the
  reference directory holds no file. \<open>scaleFactor\<close> is unbound before the first pair and
  is assigned before it is read.
\<close>

definition header :: "config \<Rightarrow> environment \<Rightarrow> clock \<Rightarrow> int list \<Rightarrow> int list \<Rightarrow> details" where
  "header cfg env clk rr rt =
     \<lparr>d_commandLine = commandLine env,
      d_workingDirectory = abspath env (normpath env (getcwd env)),
      d_referenceFilesDirectory = abspath env (referenceFilesDirectory cfg),
      d_targetFilesDirectory = abspath env (targetFilesDirectory cfg),
      d_outputDirectory = abspath env (outputDirectoryArg cfg),
      d_logfileLocation = abspath env (logFilePath cfg env clk),
      d_tresholdReferenceImages = tresholdReferenceImages cfg,
      d_tresholdTargetImages = tresholdTargetImages cfg,
      d_tresholdRangeReferenceImages = rr,
      d_tresholdRangeTargetImages = rt,
      d_scaleFactorBoundaries = scaleFactorBoundaries cfg,
      d_pythonVersion = pythonVersion env,
      d_opencvVersion = opencvVersion env,
      d_numpyVersion = numpyVersion env,
      d_start = startTime clk\<rparr>"

definition initial :: "config \<Rightarrow> 'img state" where
  "initial cfg =
     \<lparr>outputDirectory = outputDirectoryArg cfg, fileNumber = 0, scaleFactor = - 1,
      aligned = None, logFile = [], written = [], progressBar = [], alignCalls = []\<rparr>"

text \<open>
  Line 220: the regular files of the reference directory, whether or not the target
  directory has a file of the same name (\<open>os.path.join(d, f)\<close> is \<open>d + "/" + f\<close> for a
  directory name without a separator at its end).
\<close>

definition referenceFilesOf :: "config \<Rightarrow> environment \<Rightarrow> string list" where
  "referenceFilesOf cfg env =
     filter (\<lambda>f. isfile env (referenceFilesDirectory cfg @ ''/'' @ f))
       (listdir env (referenceFilesDirectory cfg))"

definition run ::
  "config \<Rightarrow> environment \<Rightarrow> clock \<Rightarrow> 'img aligner \<Rightarrow> pyexn option \<times> 'img state" where
  "run cfg env clk al =
     (let referenceFiles = referenceFilesOf cfg env
      in case tresholdRange (tresholdReferenceImages cfg) (tresholdChangeSteps cfg)
                (tresholdMaxChange cfg) of
           Inl e \<Rightarrow> (Some e, initial cfg)
         | Inr rr \<Rightarrow>
             (case tresholdRange (tresholdTargetImages cfg) (tresholdChangeSteps cfg)
                     (tresholdMaxChange cfg) of
                Inl e \<Rightarrow> (Some e, initial cfg)
              | Inr rt \<Rightarrow>
                  (let st = (initial cfg)\<lparr>logFile := [Details (header cfg env clk rr rt)]\<rparr>
                   in if referenceFiles = [] then (Some ZeroDivisionError, st)
                      else (let st = st\<lparr>progressBar := [(0, length referenceFiles, [])]\<rparr>;
                                st = processFiles cfg env al rr rt referenceFiles referenceFiles st
                            in (None, st\<lparr>logFile := logFile st @ [Finished (finishTime clk)]\<rparr>)))))"


text \<open>
  The search as one loop over the cells of the grid in the order of the two nested loops;
  used to reason about them.
\<close>

fun scan ::
  "config \<Rightarrow> 'img aligner \<Rightarrow> string \<Rightarrow> (int \<times> int) list \<Rightarrow> 'img state \<Rightarrow> flow \<times> 'img state" where
  "scan cfg al referenceFile [] st = (Normal, st)"
| "scan cfg al referenceFile (c # cs) st =
     (case attempt cfg al referenceFile (fst c) (snd c) st of
        (Normal, st') \<Rightarrow> scan cfg al referenceFile cs st'
      | (fl, st') \<Rightarrow> (fl, st'))"

subsection \<open>A run on four reference files\<close>

text \<open>
  A concrete configuration and surroundings, to evaluate the definitions on: base
  thresholds \<open>100\<close>, step \<open>2\<close>, max change \<open>4\<close> (the ranges are \<open>0, 2, -2\<close>), and the
  reference files \<open>a.png\<close> to \<open>d.png\<close>, of which \<open>b.png\<close> has no target file. An image is
  named by its path; a grayscale or binary image is the path with the threshold applied.
  The target \<open>d.png\<close> has no keypoint at the threshold \<open>100\<close>; every other binary image
  has five, matched one to one. The homography needs four point pairs and raises
  \<open>cv2.error\<close> below that; the similarity estimator finds the identity from two pairs on
  and nothing (\<open>None\<close>) below.
\<close>

definition example_config :: config where
  "example_config =
     \<lparr>referenceFilesDirectory = ''ref'', targetFilesDirectory = ''tgt'',
      outputDirectoryArg = ''out'', logFileDirectory = [],
      tresholdReferenceImages = 100, tresholdTargetImages = 100,
      tresholdChangeSteps = 2, tresholdMaxChange = 4,
      scaleFactorBoundaries = (0.95, 1.05), suppressOverlapImages = False\<rparr>"

definition example_environment :: environment where
  "example_environment =
     \<lparr>commandLine = ''alignCrossSections.py -r ref -t tgt -x 100 -y 100 -m 4 -o out'',
      getcwd = ''/work'',
      abspath = (\<lambda>p. if take 1 p = ''/'' then p else ''/work/'' @ p),
      normpath = (\<lambda>p. p),
      basename = (\<lambda>p. p),
      listdir = (\<lambda>d. if d = ''ref'' then [''a.png'', ''b.png'', ''c.png'', ''d.png''] else []),
      isfile = (\<lambda>p. p \<in> set [''ref/a.png'', ''ref/b.png'', ''ref/c.png'', ''ref/d.png'',
                               ''tgt/a.png'', ''tgt/c.png'', ''tgt/d.png'']),
      pythonVersion = ''3.10.12'', opencvVersion = ''4.5.3.56'', numpyVersion = ''1.23.5''\<rparr>"

definition example_points :: "point list" where
  "example_points = [(0, 0), (10, 0), (0, 10), (10, 10), (5, 5)]"

definition example_matches :: "DMatch list" where
  "example_matches =
     [\<lparr>queryIdx = 0, trainIdx = 0, distance = 12\<rparr>,
      \<lparr>queryIdx = 1, trainIdx = 1, distance = 3\<rparr>,
      \<lparr>queryIdx = 2, trainIdx = 2, distance = 40\<rparr>,
      \<lparr>queryIdx = 3, trainIdx = 3, distance = 7\<rparr>,
      \<lparr>queryIdx = 4, trainIdx = 4, distance = 25\<rparr>]"

definition example_cv2 :: "(string, string \<times> int, unit) cv2" where
  "example_cv2 =
     \<lparr>imread = (\<lambda>p. Some p),
      cvtColor = (\<lambda>img. (img, - 1)),
      shape = (\<lambda>g. (480, 640)),
      threshold = (\<lambda>g t. (fst g, t)),
      detectAndCompute = (\<lambda>g. if g = (''tgt/d.png'', 100) then ([], None)
                                else (example_points, Some ())),
      bfMatch = (\<lambda>d1 d2. if d1 = None \<or> d2 = None then Inr [] else Inr example_matches),
      findHomography = (\<lambda>src dst. if length src < 4 then Inl cv2_error
                                   else Inr (Some (replicate (length src) 1))),
      estimateAffinePartial2D = (\<lambda>src dst. if length src < 2 then Inr None
                                            else Inr (Some ((1, 0, 0), (0, 1, 0)))),
      warpAffine = (\<lambda>img M dsize. img @ '' warped''),
      addWeighted = (\<lambda>a wa b wb g. a @ '' + '' @ b)\<rparr>"

definition example_clock :: clock where
  "example_clock =
     \<lparr>logNameTime = ''2023_05_04 10_00_00'', startTime = ''2023_05_04 10_00_01'',
      finishTime = ''2023_05_04 10_00_09''\<rparr>"



definition second_config :: config where
  "second_config =
     example_config\<lparr>tresholdTargetImages := 98, scaleFactorBoundaries := (1.5, 2.5)\<rparr>"

text \<open>
  For a cell \<open>c = (i, j)\<close> of the grid: the call of line 272, its entry in \<open>alignCalls\<close>,
  and the case that the call returns a scale factor outside the boundaries.
\<close>

definition cellResult ::
  "config \<Rightarrow> 'img aligner \<Rightarrow> string \<Rightarrow> int \<times> int \<Rightarrow> pyexn + (real \<times> real \<times> 'img \<times> 'img)" where
  "cellResult cfg al referenceFile c =
     al (tresholdReferenceImages cfg + fst c) (tresholdTargetImages cfg + snd c)
        (targetFilesDirectory cfg @ ''/'') (referenceFilesDirectory cfg @ ''/'') referenceFile"

definition cellCall :: "config \<Rightarrow> string \<Rightarrow> int \<times> int \<Rightarrow> int \<times> int \<times> string" where
  "cellCall cfg referenceFile c =
     (tresholdReferenceImages cfg + fst c, tresholdTargetImages cfg + snd c, referenceFile)"

definition outOfBounds :: "config \<Rightarrow> 'img aligner \<Rightarrow> string \<Rightarrow> int \<times> int \<Rightarrow> bool" where
  "outOfBounds cfg al referenceFile c =
     (case cellResult cfg al referenceFile c of
        Inl e \<Rightarrow> False
      | Inr r \<Rightarrow> \<not> inBounds cfg (fst r))"

section \<open>The threshold grid\<close>

lemma range_up_set: "off \<in> set (range_up i stop step) \<Longrightarrow> i \<le> off \<and> off < stop"
proof (induction i stop step rule: range_up.induct)
  case (1 i stop step)
  show ?case
  proof (cases "0 < step \<and> i < stop")
    case True
    with "1.prems" have "off = i \<or> off \<in> set (range_up (i + step) stop step)"
      by (subst (asm) range_up.simps) simp
    with True "1.IH" show ?thesis by auto
  next
    case False
    with "1.prems" show ?thesis by (subst (asm) range_up.simps) simp
  qed
qed

lemma range_down_set: "off \<in> set (range_down i stop step) \<Longrightarrow> off \<le> i \<and> stop < off"
proof (induction i stop step rule: range_down.induct)
  case (1 i stop step)
  show ?case
  proof (cases "step < 0 \<and> stop < i")
    case True
    with "1.prems" have "off = i \<or> off \<in> set (range_down (i + step) stop step)"
      by (subst (asm) range_down.simps) simp
    with True "1.IH" show ?thesis by auto
  next
    case False
    with "1.prems" show ?thesis by (subst (asm) range_down.simps) simp
  qed
qed

text \<open>
  The iteration of \<open>range\<close> from a multiple of the step is the list of the multiples below
  the stop value; \<open>n\<close> is any bound past which no multiple can qualify.
\<close>

lemma multiple_past_bound:
  assumes "0 < s" "n \<le> j"
  shows "int n \<le> int j * s"
proof -
  have "int j * 1 \<le> int j * s" using assms(1) by (intro mult_left_mono) auto
  with assms(2) show ?thesis by simp
qed

lemma range_up_multiples:
  assumes "0 < s" "M \<le> int n"
  shows "range_up (int j * s) M s = filter (\<lambda>off. off < M) (map (\<lambda>k. int k * s) [j ..< n])"
  using assms
proof (induction "n - j" arbitrary: j)
  case 0
  then have "int n \<le> int j * s" by (intro multiple_past_bound) auto
  with 0 show ?case by (subst range_up.simps) simp
next
  case (Suc d)
  then have jn: "j < n" and d: "d = n - Suc j" by auto
  have up: "[j ..< n] = j # [Suc j ..< n]" using jn by (simp add: upt_conv_Cons)
  show ?case
  proof (cases "int j * s < M")
    case True
    have "range_up (int j * s) M s = int j * s # range_up (int (Suc j) * s) M s"
      using True \<open>0 < s\<close> by (subst range_up.simps) (simp add: algebra_simps)
    also have "range_up (int (Suc j) * s) M s
        = filter (\<lambda>off. off < M) (map (\<lambda>k. int k * s) [Suc j ..< n])"
      using Suc.hyps(1) [OF d] Suc.prems by simp
    finally show ?thesis using True by (simp add: up)
  next
    case False
    have "\<forall>k \<in> set [j ..< n]. \<not> int k * s < M"
    proof
      fix k assume "k \<in> set [j ..< n]"
      then have "int j \<le> int k" by simp
      then have "int j * s \<le> int k * s" using \<open>0 < s\<close> by (simp add: mult_right_mono)
      with False show "\<not> int k * s < M" by simp
    qed
    then have "filter (\<lambda>off. off < M) (map (\<lambda>k. int k * s) [j ..< n]) = []"
      by (simp add: filter_empty_conv)
    moreover have "range_up (int j * s) M s = []"
      using False by (subst range_up.simps) simp
    ultimately show ?thesis by simp
  qed
qed

lemma range_down_multiples:
  assumes "0 < s" "M \<le> int n"
  shows "range_down (- (int j * s)) (- M) (- s)
           = filter (\<lambda>off. - M < off) (map (\<lambda>k. - (int k * s)) [j ..< n])"
  using assms
proof (induction "n - j" arbitrary: j)
  case 0
  then have "int n \<le> int j * s" by (intro multiple_past_bound) auto
  with 0 show ?case by (subst range_down.simps) simp
next
  case (Suc d)
  then have jn: "j < n" and d: "d = n - Suc j" by auto
  have up: "[j ..< n] = j # [Suc j ..< n]" using jn by (simp add: upt_conv_Cons)
  show ?case
  proof (cases "int j * s < M")
    case True
    have "range_down (- (int j * s)) (- M) (- s)
            = - (int j * s) # range_down (- (int (Suc j) * s)) (- M) (- s)"
      using True \<open>0 < s\<close> by (subst range_down.simps) (simp add: algebra_simps)
    also have "range_down (- (int (Suc j) * s)) (- M) (- s)
        = filter (\<lambda>off. - M < off) (map (\<lambda>k. - (int k * s)) [Suc j ..< n])"
      using Suc.hyps(1) [OF d] Suc.prems by simp
    finally show ?thesis using True by (simp add: up)
  next
    case False
    have "\<forall>k \<in> set [j ..< n]. \<not> - M < - (int k * s)"
    proof
      fix k assume "k \<in> set [j ..< n]"
      then have "int j \<le> int k" by simp
      then have "int j * s \<le> int k * s" using \<open>0 < s\<close> by (simp add: mult_right_mono)
      with False show "\<not> - M < - (int k * s)" by simp
    qed
    then have "filter (\<lambda>off. - M < off) (map (\<lambda>k. - (int k * s)) [j ..< n]) = []"
      by (simp add: filter_empty_conv)
    moreover have "range_down (- (int j * s)) (- M) (- s) = []"
      using False by (subst range_down.simps) simp
    ultimately show ?thesis by simp
  qed
qed

lemma tresholdRange_positive_step:
  "0 < s \<Longrightarrow> tresholdRange b s m
     = Inr (range_up 0 (min (255 - b) m) s @ range_down (- s) (- min b m) (- s))"
  by (simp add: tresholdRange_def py_range_def Let_def)

lemma tresholdRange_head:
  assumes "0 < s" "0 < m" "b < 255"
  shows "\<exists>rest. tresholdRange b s m = Inr (0 # rest)"
proof -
  have "range_up 0 (min (255 - b) m) s = 0 # range_up (0 + s) (min (255 - b) m) s"
    using assms by (subst range_up.simps) simp
  then show ?thesis using assms(1) by (simp add: tresholdRange_positive_step)
qed

text \<open>
  C4. The claim: for every base threshold in \<open>[0,255]\<close>, positive step and positive max
  change, the first offset of the generated range is \<open>0\<close>, so that the first attempt uses
  the base thresholds. At the base threshold \<open>255\<close> (which the option check of \<open>main\<close>
  accepts) \<open>np.minimum(255 - 255, m)\<close> is \<open>0\<close> and \<open>range(0, 0, s)\<close> is empty: with the
  default step \<open>2\<close> and max change \<open>20\<close> the range starts at \<open>-2\<close>, and the threshold
  \<open>255\<close> itself is never tried. (\<open>tresholdRange_head\<close> shows that below \<open>255\<close> the first
  offset is \<open>0\<close>.)
\<close>

theorem tresholdRange_base_255:
  "tresholdRange 255 2 20 = Inr [-2, -4, -6, -8, -10, -12, -14, -16, -18]
   \<and> \<not> (\<exists>rest. tresholdRange 255 2 20 = Inr (0 # rest))"
  by (simp add: tresholdRange_def py_range_def range_up.simps range_down.simps)

text \<open>
  C5. Grid bounds: for a base threshold \<open>b\<close> in \<open>[0,255]\<close> and a positive step (and any
  max change), the ranges are generated without an exception and every offset \<open>off\<close> in
  them keeps the effective threshold \<open>b + off\<close> within \<open>[0,255]\<close>.
\<close>

theorem tresholdRange_bounds:
  assumes "0 \<le> b" "b \<le> 255" "0 < s"
  shows "\<exists>offs. tresholdRange b s m = Inr offs \<and> (\<forall>off \<in> set offs. 0 \<le> b + off \<and> b + off \<le> 255)"
proof -
  let ?up = "range_up 0 (min (255 - b) m) s"
  let ?down = "range_down (- s) (- min b m) (- s)"
  have "0 \<le> b + off \<and> b + off \<le> 255" if "off \<in> set (?up @ ?down)" for off
  proof (cases "off \<in> set ?up")
    case True
    from range_up_set [OF this] assms show ?thesis by linarith
  next
    case False
    with that have "off \<in> set ?down" by simp
    from range_down_set [OF this] assms show ?thesis by linarith
  qed
  then show ?thesis using assms(3) by (simp add: tresholdRange_positive_step)
qed

theorem tresholdRange_bounds_witness:
  "(0::int) \<le> 250 \<and> (250::int) \<le> 255 \<and> (0::int) < 2
   \<and> (\<exists>offs. tresholdRange 250 2 20 = Inr offs
        \<and> 4 \<in> set offs \<and> -18 \<in> set offs
        \<and> (\<forall>off \<in> set offs. 0 \<le> 250 + off \<and> 250 + off \<le> 255))"
proof -
  have e: "tresholdRange 250 2 20 = Inr [0, 2, 4, -2, -4, -6, -8, -10, -12, -14, -16, -18]"
    by (simp add: tresholdRange_def py_range_def range_up.simps range_down.simps)
  from tresholdRange_bounds [of 250 2 20] show ?thesis unfolding e by simp
qed

text \<open>
  C6. The claim: for every base threshold, step and max change the generated range is the
  ascending multiples of the step strictly below \<open>min (255 - b) m\<close> followed by the
  descending ones strictly above \<open>- min b m\<close>. With the step \<open>0\<close> (\<open>-s 0\<close> on the
  command line; the step is \<open>abs(int(arg))\<close>) \<open>range\<close> raises \<open>ValueError\<close> and no range
  is generated.
\<close>

theorem tresholdRange_step_0:
  "tresholdRange 100 0 20 = Inl ValueError
   \<and> tresholdRange 100 0 20 \<noteq> Inr (spec_ascending 100 0 20 @ spec_descending 100 0 20)"
  by (simp add: tresholdRange_def py_range_def)

text \<open>
  C6, amended: for every base threshold, every positive step and every max change the
  generated range is the list of the specification; with the step \<open>0\<close> no range is
  generated, whatever the base threshold and the max change: \<open>range\<close> raises
  \<open>ValueError\<close>; for \<open>b = 100\<close>, \<open>s = 2\<close>, \<open>m = 20\<close> the range is \<open>0, 2, ..., 18\<close>
  followed by \<open>-2, -4, ..., -18\<close>: \<open>20\<close> and \<open>-20\<close> are both excluded.
\<close>

theorem tresholdRange_formula:
  "(0 < s \<longrightarrow> tresholdRange b s m = Inr (spec_ascending b s m @ spec_descending b s m))
   \<and> tresholdRange b 0 m = Inl ValueError
   \<and> tresholdRange 100 2 20
       = Inr [0, 2, 4, 6, 8, 10, 12, 14, 16, 18, -2, -4, -6, -8, -10, -12, -14, -16, -18]"
proof (intro conjI impI)
  assume s: "0 < s"
  have "min (255 - b) m \<le> int (nat (min (255 - b) m))" by linarith
  from range_up_multiples [OF s this, of 0]
  have a: "range_up 0 (min (255 - b) m) s = spec_ascending b s m"
    unfolding spec_ascending_def by simp
  have "min b m \<le> int (Suc (nat (min b m)))" by linarith
  from range_down_multiples [OF s this, of 1]
  have d: "range_down (- s) (- min b m) (- s) = spec_descending b s m"
    unfolding spec_descending_def by simp
  show "tresholdRange b s m = Inr (spec_ascending b s m @ spec_descending b s m)"
    using s a d by (simp add: tresholdRange_positive_step)
next
  show "tresholdRange b 0 m = Inl ValueError"
    by (simp add: tresholdRange_def py_range_def)
next
  show "tresholdRange 100 2 20
       = Inr [0, 2, 4, 6, 8, 10, 12, 14, 16, 18, -2, -4, -6, -8, -10, -12, -14, -16, -18]"
    by (simp add: tresholdRange_def py_range_def range_up.simps range_down.simps)
qed

theorem tresholdRange_formula_witness:
  "(0::int) < 3
   \<and> tresholdRange 250 3 7 = Inr (spec_ascending 250 3 7 @ spec_descending 250 3 7)
   \<and> spec_ascending 250 3 7 @ spec_descending 250 3 7 = [0, 3, -3, -6]
   \<and> tresholdRange 250 0 7 = Inl ValueError"
proof -
  have "spec_ascending 250 3 7 @ spec_descending 250 3 7 = [0, 3, -3, -6]"
    by (simp add: spec_ascending_def spec_descending_def upt_rec)
  with tresholdRange_formula [of 3 250 7] show ?thesis by simp
qed

section \<open>The top 90 percent of the matches\<close>

lemma round53_small: "0 \<le> p \<Longrightarrow> p < 2 ^ 53 \<Longrightarrow> round53 p e = (p, e)"
proof -
  assume "0 \<le> p" "p < 2 ^ 53"
  then have "bitlen p \<le> 53" by (simp add: bitlen_le_iff_power)
  then show ?thesis by (simp add: round53_def)
qed

lemma round53_bounds:
  assumes p: "0 < p" and sh: "sh = bitlen p - 53" "0 < sh"
  shows "\<exists>q'. round53 p e = (q', e + sh) \<and> p div 2 ^ nat sh \<le> q' \<and> q' \<le> p div 2 ^ nat sh + 1"
  using sh by (auto simp: round53_def Let_def)



lemma div_between:
  fixes x :: int
  assumes "K * d \<le> x" "x < (K + 1) * d"
  shows "x div d = K"
proof -
  have "x = d * K + (x - K * d)" by simp
  moreover have "0 \<le> x - K * d" using assms(1) by simp
  moreover have "x - K * d < d" using assms(2) by (simp add: algebra_simps)
  ultimately show ?thesis by (rule int_div_pos_eq)
qed

lemma product_window:
  fixes n :: int
  assumes n: "0 < n" "n < 2 ^ 40"
  defines "p \<equiv> n * 8106479329266893" and "K \<equiv> 9 * n div 10"
  shows "K * 2 ^ 53 \<le> p" and "p + 2 ^ 40 < (K + 1) * 2 ^ 53"
proof -
  define T :: int where "T = 2 ^ 53"
  have T: "T = 9007199254740992" by (simp add: T_def)
  have E: "(2::int) ^ 40 = 1099511627776" by simp
  have ten: "10 * p = 9 * (n * T) + 2 * n" by (simp add: p_def T)
  have K1: "10 * K \<le> 9 * n" and K2: "9 * n \<le> 10 * K + 9" unfolding K_def by presburger+
  have "10 * K * T \<le> 9 * n * T" using K1 by (intro mult_right_mono) (simp_all add: T)
  then have a: "10 * (K * T) \<le> 9 * (n * T)" by (simp add: mult.assoc)
  have "9 * n * T \<le> (10 * K + 9) * T" using K2 by (intro mult_right_mono) (simp_all add: T)
  then have b: "9 * (n * T) \<le> 10 * (K * T) + 9 * T" by (simp add: algebra_simps)
  show "K * 2 ^ 53 \<le> p" using a ten n(1) unfolding T_def [symmetric] by linarith
  have "p + 1099511627776 < K * T + T" using b ten n(2) unfolding E T by linarith
  then show "p + 2 ^ 40 < (K + 1) * 2 ^ 53" unfolding E T_def [symmetric] by (simp add: algebra_simps)
qed


lemma round53_exact: "bitlen p \<le> 53 \<Longrightarrow> round53 p e = (p, e)"
  by (simp add: round53_def)

lemma trunc_product_pos:
  fixes n :: int
  assumes n: "0 < n" "n < 2 ^ 40"
  shows "int_of_float (round53 (n * 8106479329266893) (- 53)) = 9 * n div 10"
proof -
  define p where "p = n * 8106479329266893"
  define K where "K = 9 * n div 10"
  have lo: "K * 2 ^ 53 \<le> p" and hi: "p + 2 ^ 40 < (K + 1) * 2 ^ 53"
    unfolding p_def K_def using product_window [OF n] by simp_all
  have ppos: "0 < p" using n(1) by (simp add: p_def)
  have "p < 2 ^ 40 * 8106479329266893" unfolding p_def using n(2) by simp
  also have "\<dots> \<le> 2 ^ 93" by simp
  finally have "p < 2 ^ nat 93" by simp
  then have bl: "bitlen p \<le> 93" by (subst bitlen_le_iff_power) simp
  show ?thesis
  proof (cases "bitlen p \<le> 53")
    case True
    then have "int_of_float (round53 p (- 53)) = p div 2 ^ 53"
      by (simp add: round53_exact int_of_float_def)
    moreover have "p div 2 ^ 53 = K"
      using lo hi by (intro div_between) simp_all
    ultimately show ?thesis by (simp add: K_def p_def)
  next
    case False
    define sh where "sh = bitlen p - 53"
    have sh: "0 < sh" "sh \<le> 40" using False bl by (simp_all add: sh_def)
    define k where "k = nat sh"
    have k: "0 < k" "k \<le> 40" "sh = int k" using sh by (simp_all add: k_def)
    from round53_bounds [OF ppos sh_def sh(1), of "- 53"]
    obtain q' where q': "round53 p (- 53) = (q', - 53 + sh)"
      "p div 2 ^ k \<le> q'" "q' \<le> p div 2 ^ k + 1" by (auto simp: k_def)
    have "nat (53 - int k) = 53 - k" by simp
    then have res: "int_of_float (round53 p (- 53)) = q' div 2 ^ (53 - k)"
      using k by (simp add: q' int_of_float_def)
    have split: "(2::int) ^ 53 = 2 ^ (53 - k) * 2 ^ k"
      using k by (simp flip: power_add)
    define D :: int where "D = 2 ^ (53 - k)"
    define E :: int where "E = 2 ^ k"
    have Epos: "0 < E" by (simp add: E_def)
    have pk: "E \<le> 2 ^ 40" unfolding E_def using k by (intro power_increasing) auto
    have DE: "(2::int) ^ 53 = D * E" unfolding D_def E_def by (rule split)
    have lo1: "K * D * E \<le> p" using lo unfolding DE by (simp only: mult.assoc)
    have "p + E \<le> p + 2 ^ 40" using pk by simp
    also have "\<dots> < (K + 1) * (D * E)" using hi unfolding DE .
    finally have hi1: "p + E < (K + 1) * D * E" by (simp only: mult.assoc)
    have lo': "K * D \<le> p div E"
    proof -
      have "K * D = (K * D * E) div E" using Epos by simp
      also have "\<dots> \<le> p div E" using lo1 Epos by (intro zdiv_mono1) simp_all
      finally show ?thesis .
    qed
    have hi': "p div E + 1 < (K + 1) * D"
    proof -
      have "p div E * E + p mod E = p" by simp
      moreover have "0 \<le> p mod E" using Epos by simp
      ultimately have "p div E * E \<le> p" by linarith
      then have "(p div E + 1) * E \<le> p + E" by (simp add: algebra_simps)
      also have "\<dots> < (K + 1) * D * E" by (rule hi1)
      finally show ?thesis using Epos by simp
    qed
    have "q' div D = K"
      using lo' hi' q'(2,3) by (intro div_between) (simp_all add: E_def)
    then have "int_of_float (round53 p (- 53)) = K" unfolding res D_def .
    then show ?thesis unfolding K_def p_def .
  qed
qed

lemma trunc_product:
  assumes "n < 2 ^ 40"
  shows "nat (int_of_float (float_mul (float_of_int (int n)) float_0_9)) = 9 * n div 10"
proof -
  have n53: "int n < 2 ^ 53"
  proof -
    have "int n < 2 ^ 40" using assms by (simp flip: of_nat_less_iff)
    also have "\<dots> < (2::int) ^ 53" by simp
    finally show ?thesis .
  qed
  have fn: "float_of_int (int n) = (int n, 0)"
    unfolding float_of_int_def using n53 by (intro round53_small) simp_all
  have prod: "float_mul (float_of_int (int n)) float_0_9 = round53 (int n * 8106479329266893) (- 53)"
    by (simp add: fn float_mul_def float_0_9_def)
  show ?thesis
  proof (cases "n = 0")
    case True
    have "round53 0 (- 53) = (0, - 53)" by (simp add: round53_def)
    with prod True show ?thesis by (simp add: int_of_float_def)
  next
    case False
    then have "0 < int n" by simp
    moreover have "int n < 2 ^ 40" using assms by (simp flip: of_nat_less_iff)
    ultimately have "int_of_float (round53 (int n * 8106479329266893) (- 53)) = 9 * int n div 10"
      by (rule trunc_product_pos)
    then have "nat (int_of_float (float_mul (float_of_int (int n)) float_0_9)) = nat (9 * int n div 10)"
      by (simp add: prod)
    also have "\<dots> = 9 * n div 10" by (simp add: nat_div_distrib nat_mult_distrib)
    finally show ?thesis .
  qed
qed


lemma floor_nine_tenths: "nat \<lfloor>0.9 * real n\<rfloor> = 9 * n div 10"
proof -
  have "0.9 * real n = real_of_int (int (9 * n)) / real_of_int 10" by simp
  then have "\<lfloor>0.9 * real n\<rfloor> = int (9 * n) div 10"
    by (simp only: floor_divide_of_int_eq)
  then show ?thesis by (simp add: nat_div_distrib)
qed

lemma ceiling_one_tenth: "nat \<lceil>0.1 * real n\<rceil> = n - 9 * n div 10"
proof -
  have "0.1 * real n = real_of_int (int n) / real_of_int 10" by simp
  then have "\<lceil>0.1 * real n\<rceil> = - (- int n div 10)"
    by (simp only: ceiling_divide_eq_div)
  then show ?thesis by (simp only: nat_eq_iff) (simp, linarith)
qed

lemma topMatches_take:
  "length matches < 2 ^ 40 \<Longrightarrow>
     topMatches matches = take (9 * length matches div 10) (sort_key distance matches)"
  by (simp add: topMatches_def trunc_product)

text \<open>
  C7. Truncation: for every list of raw matches of length \<open>N\<close> (below \<open>2 ^ 40\<close>; the
  detector is created for at most 5000 keypoints), the matches kept are exactly
  \<open>\<lfloor>0.9 * N\<rfloor>\<close>, sorted by ascending distance; the other \<open>\<lceil>0.1 * N\<rceil>\<close> matches are
  discarded, and none of them has a smaller distance than a match that is kept. There is
  no test of \<open>N\<close>: a single match is discarded, too.
\<close>

theorem topMatches_truncation:
  assumes "length matches < 2 ^ 40"
  shows "length (topMatches matches) = nat \<lfloor>0.9 * real (length matches)\<rfloor>
       \<and> sorted (map distance (topMatches matches))
       \<and> (\<exists>discarded.
             mset (topMatches matches) + mset discarded = mset matches
           \<and> length discarded = nat \<lceil>0.1 * real (length matches)\<rceil>
           \<and> (\<forall>k \<in> set (topMatches matches). \<forall>d \<in> set discarded. distance k \<le> distance d))"
proof -
  let ?s = "sort_key distance matches"
  let ?n = "9 * length matches div 10"
  have top: "topMatches matches = take ?n ?s" using assms by (rule topMatches_take)
  have le: "?n \<le> length matches" by simp
  have "length (topMatches matches) = ?n" using le by (simp add: top)
  then have len: "length (topMatches matches) = nat \<lfloor>0.9 * real (length matches)\<rfloor>"
    by (simp only: floor_nine_tenths)
  have srt: "sorted (map distance ?s)" by (rule sorted_sort_key)
  have "sorted (map distance (take ?n ?s @ drop ?n ?s))" using srt by simp
  then have parts: "sorted (map distance (take ?n ?s))"
    "\<forall>k \<in> set (take ?n ?s). \<forall>d \<in> set (drop ?n ?s). distance k \<le> distance d"
    unfolding map_append sorted_append by auto
  have "mset (take ?n ?s) + mset (drop ?n ?s) = mset ?s"
    by (simp flip: mset_append)
  then have ms: "mset (topMatches matches) + mset (drop ?n ?s) = mset matches"
    by (simp add: top)
  have "length (drop ?n ?s) = length matches - ?n" by simp
  then have dl: "length (drop ?n ?s) = nat \<lceil>0.1 * real (length matches)\<rceil>"
    by (simp only: ceiling_one_tenth)
  from len parts ms dl show ?thesis unfolding top by blast
qed

theorem topMatches_truncation_witness:
  "length [\<lparr>queryIdx = 0, trainIdx = 4, distance = 31\<rparr>] < 2 ^ 40
   \<and> topMatches [\<lparr>queryIdx = 0, trainIdx = 4, distance = 31\<rparr>] = []
   \<and> length [\<lparr>queryIdx = 0, trainIdx = 4, distance = 31\<rparr>,
              \<lparr>queryIdx = 1, trainIdx = 2, distance = 7\<rparr>,
              \<lparr>queryIdx = 2, trainIdx = 0, distance = 12\<rparr>] < 2 ^ 40
   \<and> topMatches [\<lparr>queryIdx = 0, trainIdx = 4, distance = 31\<rparr>,
                  \<lparr>queryIdx = 1, trainIdx = 2, distance = 7\<rparr>,
                  \<lparr>queryIdx = 2, trainIdx = 0, distance = 12\<rparr>]
       = [\<lparr>queryIdx = 1, trainIdx = 2, distance = 7\<rparr>, \<lparr>queryIdx = 2, trainIdx = 0, distance = 12\<rparr>]"
proof -
  let ?a = "\<lparr>queryIdx = 0, trainIdx = 4, distance = 31\<rparr>"
  let ?b = "\<lparr>queryIdx = 1, trainIdx = 2, distance = 7\<rparr>"
  let ?c = "\<lparr>queryIdx = 2, trainIdx = 0, distance = 12\<rparr>"
  have one: "length [?a] < 2 ^ 40" by simp
  have three: "length [?a, ?b, ?c] < 2 ^ 40" by simp
  from topMatches_truncation [OF one]
  have "length (topMatches [?a]) = nat \<lfloor>0.9 * real (length [?a])\<rfloor>" by blast
  then have r1: "topMatches [?a] = []" by simp
  have r3: "topMatches [?a, ?b, ?c] = [?b, ?c]"
    by code_simp
  from one three r1 r3 show ?thesis by blast
qed

section \<open>The search over the grid\<close>

text \<open>
  The two nested loops visit the cells of \<open>List.product\<close> of the two ranges in order, as
  long as the scale factor is outside the boundaries when they start.
\<close>

lemma inner_loop_scan:
  "inner_loop cfg al f i js st = scan cfg al f (map (Pair i) js) st"
  by (induction js arbitrary: st) (auto split: prod.splits flow.splits)

lemma scan_append:
  "scan cfg al f (xs @ ys) st =
     (case scan cfg al f xs st of
        (Normal, st') \<Rightarrow> scan cfg al f ys st'
      | (fl, st') \<Rightarrow> (fl, st'))"
  by (induction xs arbitrary: st) (auto split: prod.splits flow.splits)

lemma attempt_Normal:
  "attempt cfg al f i j st = (Normal, st') \<Longrightarrow> \<not> inBounds cfg (scaleFactor st)
     \<Longrightarrow> \<not> inBounds cfg (scaleFactor st')"
  by (auto simp: attempt_def Let_def split: if_splits sum.splits prod.splits)

lemma attempt_Break:
  "attempt cfg al f i j st = (Break, st') \<Longrightarrow> inBounds cfg (scaleFactor st')"
  by (auto simp: attempt_def Let_def split: if_splits sum.splits prod.splits)

lemma scan_Normal:
  "scan cfg al f cs st = (Normal, st') \<Longrightarrow> \<not> inBounds cfg (scaleFactor st)
     \<Longrightarrow> \<not> inBounds cfg (scaleFactor st')"
proof (induction cs arbitrary: st)
  case Nil
  then show ?case by simp
next
  case (Cons c cs)
  obtain fl st1 where a: "attempt cfg al f (fst c) (snd c) st = (fl, st1)" by fastforce
  with Cons.prems(1) have fl: "fl = Normal" and r: "scan cfg al f cs st1 = (Normal, st')"
    by (auto split: flow.splits)
  from a fl Cons.prems(2) have "\<not> inBounds cfg (scaleFactor st1)"
    by (auto dest: attempt_Normal)
  with Cons.IH r show ?case by blast
qed

lemma scan_Break:
  "scan cfg al f cs st = (Break, st') \<Longrightarrow> inBounds cfg (scaleFactor st')"
proof (induction cs arbitrary: st)
  case Nil
  then show ?case by simp
next
  case (Cons c cs)
  obtain fl st1 where a: "attempt cfg al f (fst c) (snd c) st = (fl, st1)" by fastforce
  show ?case
  proof (cases fl)
    case Normal
    with a Cons.prems have "scan cfg al f cs st1 = (Break, st')" by simp
    with Cons.IH show ?thesis by blast
  next
    case Break
    with a Cons.prems have "st1 = st'" by simp
    with a Break show ?thesis by (auto dest: attempt_Break)
  next
    case (Raise e)
    with a Cons.prems show ?thesis by simp
  qed
qed

lemma outer_loop_scan:
  "\<not> inBounds cfg (scaleFactor st) \<Longrightarrow>
     outer_loop cfg al f rr rt st = scan cfg al f (List.product rr rt) st"
proof (induction rr arbitrary: st)
  case Nil
  then show ?case by simp
next
  case (Cons i rr)
  obtain fl st1 where s: "scan cfg al f (map (Pair i) rt) st = (fl, st1)" by fastforce
  show ?case
  proof (cases fl)
    case Normal
    with s Cons.prems have nb: "\<not> inBounds cfg (scaleFactor st1)" by (auto dest: scan_Normal)
    with Cons.IH have "outer_loop cfg al f rr rt st1 = scan cfg al f (List.product rr rt) st1" .
    with s Normal nb show ?thesis by (simp add: inner_loop_scan scan_append)
  next
    case Break
    with s have "inBounds cfg (scaleFactor st1)" by (auto dest: scan_Break)
    with s Break show ?thesis by (simp add: inner_loop_scan scan_append)
  next
    case (Raise e)
    with s show ?thesis by (simp add: inner_loop_scan scan_append)
  qed
qed

lemma attempt_outOfBounds:
  assumes "outOfBounds cfg al f c" "\<not> inBounds cfg (scaleFactor st)"
  shows "\<exists>sf a. attempt cfg al f (fst c) (snd c) st
            = (Normal, st\<lparr>alignCalls := alignCalls st @ [cellCall cfg f c],
                          scaleFactor := sf, aligned := a\<rparr>)
          \<and> \<not> inBounds cfg sf"
  using assms
  by (auto simp: attempt_def outOfBounds_def cellResult_def cellCall_def Let_def
           split: sum.splits prod.splits)

lemma scan_outOfBounds_prefix:
  assumes "\<forall>c \<in> set pre. outOfBounds cfg al f c" "\<not> inBounds cfg (scaleFactor st)"
  shows "\<exists>sf a. scan cfg al f (pre @ cs) st
            = scan cfg al f cs (st\<lparr>alignCalls := alignCalls st @ map (cellCall cfg f) pre,
                                   scaleFactor := sf, aligned := a\<rparr>)
          \<and> \<not> inBounds cfg sf"
  using assms
proof (induction pre arbitrary: st)
  case Nil
  have "st\<lparr>alignCalls := alignCalls st @ map (cellCall cfg f) [],
           scaleFactor := scaleFactor st, aligned := aligned st\<rparr> = st" by simp
  with Nil.prems(2) show ?case by (metis append_Nil)
next
  case (Cons c pre)
  from Cons.prems obtain sf a where
    a: "attempt cfg al f (fst c) (snd c) st
          = (Normal, st\<lparr>alignCalls := alignCalls st @ [cellCall cfg f c],
                        scaleFactor := sf, aligned := a\<rparr>)"
    and nb: "\<not> inBounds cfg sf"
    using attempt_outOfBounds [of cfg al f c st] by auto
  let ?st1 = "st\<lparr>alignCalls := alignCalls st @ [cellCall cfg f c],
                 scaleFactor := sf, aligned := a\<rparr>"
  have "\<not> inBounds cfg (scaleFactor ?st1)" using nb by simp
  with Cons.IH [of ?st1] Cons.prems(1) obtain sf' a' where
    r: "scan cfg al f (pre @ cs) ?st1
          = scan cfg al f cs (?st1\<lparr>alignCalls := alignCalls ?st1 @ map (cellCall cfg f) pre,
                                  scaleFactor := sf', aligned := a'\<rparr>)"
    and nb': "\<not> inBounds cfg sf'" by auto
  have "scan cfg al f ((c # pre) @ cs) st = scan cfg al f (pre @ cs) ?st1" using a by simp
  with r nb' show ?case by (intro exI [of _ sf'] exI [of _ a']) simp
qed


lemma valid_config_initial_scale: "valid_config cfg \<Longrightarrow> \<not> inBounds cfg (- 1)"
  by (simp add: valid_config_def inBounds_def)


lemma attempt_raise:
  assumes "\<not> inBounds cfg (scaleFactor st)" "cellResult cfg al f c = Inl e"
  shows "attempt cfg al f (fst c) (snd c) st
           = (Raise e, st\<lparr>alignCalls := alignCalls st @ [cellCall cfg f c]\<rparr>)"
  using assms by (simp add: attempt_def cellResult_def cellCall_def Let_def)





section \<open>Exceptions of \<open>alignImages\<close>\<close>

lemma outer_loop_raise:
  assumes nb: "\<not> inBounds cfg (scaleFactor st)"
    and "List.product rr rt = pre @ c # post"
    and "\<forall>c' \<in> set pre. outOfBounds cfg al f c'"
    and "cellResult cfg al f c = Inl e"
  shows "\<exists>sf a. outer_loop cfg al f rr rt st
           = (Raise e, st\<lparr>alignCalls := alignCalls st @ map (cellCall cfg f) (pre @ [c]),
                           scaleFactor := sf, aligned := a\<rparr>)"
proof -
  from scan_outOfBounds_prefix [OF assms(3) nb, of "c # post"] obtain sf' a' where
    p: "scan cfg al f (pre @ c # post) st
          = scan cfg al f (c # post) (st\<lparr>alignCalls := alignCalls st @ map (cellCall cfg f) pre,
                                          scaleFactor := sf', aligned := a'\<rparr>)"
    and nb': "\<not> inBounds cfg sf'" by blast
  let ?st1 = "st\<lparr>alignCalls := alignCalls st @ map (cellCall cfg f) pre,
                 scaleFactor := sf', aligned := a'\<rparr>"
  have "\<not> inBounds cfg (scaleFactor ?st1)" using nb' by simp
  from attempt_raise [OF this assms(4)]
  have "scan cfg al f (c # post) ?st1
          = (Raise e, st\<lparr>alignCalls := alignCalls st @ map (cellCall cfg f) (pre @ [c]),
                          scaleFactor := sf', aligned := a'\<rparr>)"
    by simp
  with p have "outer_loop cfg al f rr rt st
           = (Raise e, st\<lparr>alignCalls := alignCalls st @ map (cellCall cfg f) (pre @ [c]),
                           scaleFactor := sf', aligned := a'\<rparr>)"
    by (simp add: outer_loop_scan [OF nb] assms(2))
  then show ?thesis by blast
qed

lemma processFile_raise:
  assumes "valid_config cfg" "isfile env (targetFilesDirectory cfg @ ''/'' @ f)"
    and "List.product rr rt = pre @ c # post"
    and "\<forall>c' \<in> set pre. outOfBounds cfg al f c'"
    and "cellResult cfg al f c = Inl e"
  shows "\<exists>sf a. processFile cfg env al rr rt files f st
           = st\<lparr>fileNumber := fileNumber st + 1,
                 alignCalls := alignCalls st @ map (cellCall cfg f) (pre @ [c]),
                 scaleFactor := sf, aligned := a,
                 logFile := logFile st @ [AlignError f e]\<rparr>"
proof -
  let ?st1 = "st\<lparr>fileNumber := fileNumber st + 1, scaleFactor := - 1\<rparr>"
  have "\<not> inBounds cfg (scaleFactor ?st1)"
    using assms(1) by (simp add: valid_config_initial_scale)
  from outer_loop_raise [OF this assms(3,4,5)] obtain sf a where
    "outer_loop cfg al f rr rt ?st1
       = (Raise e, ?st1\<lparr>alignCalls := alignCalls ?st1 @ map (cellCall cfg f) (pre @ [c]),
                         scaleFactor := sf, aligned := a\<rparr>)" by blast
  then have "processFile cfg env al rr rt files f st
           = st\<lparr>fileNumber := fileNumber st + 1,
                 alignCalls := alignCalls st @ map (cellCall cfg f) (pre @ [c]),
                 scaleFactor := sf, aligned := a,
                 logFile := logFile st @ [AlignError f e]\<rparr>"
    using assms(2) by (simp add: processFile_def Let_def)
  then show ?thesis by blast
qed

lemma estimateAndWarp_returns:
  assumes "estimateAndWarp cv timg rimg dsize src dst = Inr res"
  shows "\<exists>mk M. findHomography cv src dst = Inr (Some mk)
             \<and> estimateAffinePartial2D cv src dst = Inr (Some M)"
  using assms by (auto simp: estimateAndWarp_def split: sum.splits option.splits)

lemma alignImages_returns:
  assumes "alignImages cv tr tt td rd f = Inr res"
  shows "\<exists>timg rimg src dst mk M.
           imread cv (td @ f) = Some timg \<and> imread cv (rd @ f) = Some rimg
         \<and> matchFeatures cv (threshold cv (cvtColor cv timg) tt)
               (threshold cv (cvtColor cv rimg) tr) = Inr (src, dst)
         \<and> findHomography cv src dst = Inr (Some mk)
         \<and> estimateAffinePartial2D cv src dst = Inr (Some M)"
  using assms
  by (auto simp: alignImages_def Let_def split: option.splits sum.splits prod.splits
           dest: estimateAndWarp_returns)

section \<open>The log is only appended to\<close>







lemma run_crash_range:
  assumes "tresholdRange (tresholdReferenceImages cfg) (tresholdChangeSteps cfg)
             (tresholdMaxChange cfg) = Inl e
         \<or> tresholdRange (tresholdTargetImages cfg) (tresholdChangeSteps cfg)
             (tresholdMaxChange cfg) = Inl e"
  shows "\<exists>e'. run cfg env clk al = (Some e', initial cfg)"
  using assms by (auto simp: run_def Let_def split: sum.splits)



section \<open>The progress bar\<close>







lemma processFile_skip:
  "\<not> isfile env (targetFilesDirectory cfg @ ''/'' @ f) \<Longrightarrow>
     processFile cfg env al rr rt files f st = st\<lparr>fileNumber := fileNumber st + 1\<rparr>"
  by (simp add: processFile_def)


section \<open>The run on four reference files, evaluated\<close>

lemma example_ranges: "tresholdRange 100 2 4 = Inr [0, 2, -2]"
  by (simp add: tresholdRange_def py_range_def range_up.simps range_down.simps)

lemma example_topMatches:
  "topMatches example_matches =
     [\<lparr>queryIdx = 1, trainIdx = 1, distance = 3\<rparr>,
      \<lparr>queryIdx = 3, trainIdx = 3, distance = 7\<rparr>,
      \<lparr>queryIdx = 0, trainIdx = 0, distance = 12\<rparr>,
      \<lparr>queryIdx = 4, trainIdx = 4, distance = 25\<rparr>]"
  by (simp add: topMatches_take example_matches_def)

lemma topMatches_Nil: "topMatches [] = []"
  by (simp add: topMatches_take)

lemma example_estimate:
  "estimateAndWarp example_cv2 t r dsize [(10, 0), (10, 10), (0, 0), (5, 5)] [(10, 0), (10, 10), (0, 0), (5, 5)]
     = Inr (1, 0, t @ '' warped'', r @ '' + '' @ t @ '' warped'')"
  by (simp add: estimateAndWarp_def example_cv2_def arctan2_def degrees_def Let_def)

lemma example_estimate_Nil:
  "estimateAndWarp example_cv2 t r dsize [] [] = Inl cv2_error"
  by (simp add: estimateAndWarp_def example_cv2_def)

lemma example_match:
  "g1 \<noteq> (''tgt/d.png'', 100) \<Longrightarrow> g2 \<noteq> (''tgt/d.png'', 100) \<Longrightarrow>
   matchFeatures example_cv2 g1 g2
     = Inr ([(10, 0), (10, 10), (0, 0), (5, 5)], [(10, 0), (10, 10), (0, 0), (5, 5)])"
  by (simp add: matchFeatures_def example_cv2_def example_topMatches example_points_def)

lemma example_match_none:
  "matchFeatures example_cv2 (''tgt/d.png'', 100) g2 = Inr ([], [])"
  by (simp add: matchFeatures_def example_cv2_def topMatches_Nil)

lemma example_cv2_fields:
  "imread example_cv2 p = Some p"
  "cvtColor example_cv2 img = (img, - 1)"
  "shape example_cv2 g = (480, 640)"
  "threshold example_cv2 g t = (fst g, t)"
  by (simp_all add: example_cv2_def)

lemma example_align:
  "(f, tt) \<noteq> (''d.png'', 100) \<Longrightarrow>
   alignImages example_cv2 tr tt ''tgt/'' ''ref/'' f
     = Inr (1, 0, ''tgt/'' @ f @ '' warped'', ''ref/'' @ f @ '' + '' @ ''tgt/'' @ f @ '' warped'')"
  by (simp add: alignImages_def example_cv2_fields example_match example_estimate)

lemma example_align_d:
  "alignImages example_cv2 tr 100 ''tgt/'' ''ref/'' ''d.png'' = Inl cv2_error"
  by (simp add: alignImages_def example_cv2_fields example_match_none example_estimate_Nil)

lemma example_config_fields:
  "referenceFilesDirectory example_config = ''ref''"
  "targetFilesDirectory example_config = ''tgt''"
  "outputDirectoryArg example_config = ''out''"
  "tresholdReferenceImages example_config = 100"
  "tresholdTargetImages example_config = 100"
  "tresholdChangeSteps example_config = 2"
  "tresholdMaxChange example_config = 4"
  "suppressOverlapImages example_config = False"
  "inBounds example_config x \<longleftrightarrow> 0.95 \<le> x \<and> x \<le> 1.05"
  "valid_config example_config"
  by (simp_all add: example_config_def inBounds_def valid_config_def)

lemma example_files:
  "referenceFilesOf example_config example_environment = [''a.png'', ''b.png'', ''c.png'', ''d.png'']"
  "isfile example_environment (''tgt/'' @ f) \<longleftrightarrow> f \<in> set [''a.png'', ''c.png'', ''d.png'']"
  by (simp_all add: referenceFilesOf_def example_config_def example_environment_def)

lemma example_attempt_fit:
  assumes "\<not> inBounds example_config (scaleFactor st)" "(f, 100 + j) \<noteq> (''d.png'', 100)"
  shows "attempt example_config (alignImages example_cv2) f i j st
     = (Break, st\<lparr>alignCalls := alignCalls st @ [(100 + i, 100 + j, f)],
                  scaleFactor := 1,
                  aligned := Some (0, ''tgt/'' @ f @ '' warped'',
                                   ''ref/'' @ f @ '' + '' @ ''tgt/'' @ f @ '' warped''),
                  logFile := logFile st @ [Aligned f (100 + i) (100 + j) 0 1]\<rparr>)"
  using assms
  by (simp add: attempt_def example_config_fields example_align Let_def del: inBounds_def)

lemma example_processFile_fit:
  assumes "f \<in> set [''a.png'', ''c.png'']"
  shows "processFile example_config example_environment (alignImages example_cv2)
           [0, 2, -2] [0, 2, -2] files f st
     = st\<lparr>fileNumber := fileNumber st + 1,
           alignCalls := alignCalls st @ [(100, 100, f)],
           scaleFactor := 1,
           aligned := Some (0, ''tgt/'' @ f @ '' warped'',
                            ''ref/'' @ f @ '' + '' @ ''tgt/'' @ f @ '' warped''),
           logFile := logFile st @ [Aligned f 100 100 0 1],
           outputDirectory := outputDirectory st @ ''/'',
           written := written st
             @ [(outputDirectory st @ ''/'' @ f, ''tgt/'' @ f @ '' warped''),
                (outputDirectory st @ ''/'' @ ''overlap/'' @ f,
                 ''ref/'' @ f @ '' + '' @ ''tgt/'' @ f @ '' warped'')],
           progressBar := progressBar st @ [(fileNumber st + 1, length files, f)]\<rparr>"
proof -
  let ?st1 = "st\<lparr>fileNumber := fileNumber st + 1, scaleFactor := - 1\<rparr>"
  have nb: "\<not> inBounds example_config (scaleFactor ?st1)" by (simp add: example_config_fields)
  have ne: "(f, 100 + (0::int)) \<noteq> (''d.png'', 100)" using assms by auto
  note a = example_attempt_fit [OF nb ne, of 0]
  have t: "isfile example_environment (''tgt/'' @ f)" using assms by (simp only: example_files) auto
  show ?thesis
    using a t
    by (simp add: processFile_def example_config_fields updateProgress_def Let_def)
qed

lemma example_isfile:
  "isfile example_environment ''tgt/a.png''"
  "\<not> isfile example_environment ''tgt/b.png''"
  "isfile example_environment ''tgt/c.png''"
  "isfile example_environment ''tgt/d.png''"
  by (simp_all add: example_environment_def)

lemma example_processFile_d:
  "processFile example_config example_environment (alignImages example_cv2)
           [0, 2, -2] [0, 2, -2] files ''d.png'' st
     = st\<lparr>fileNumber := fileNumber st + 1,
           scaleFactor := - 1,
           alignCalls := alignCalls st @ [(100, 100, ''d.png'')],
           logFile := logFile st @ [AlignError ''d.png'' cv2_error]\<rparr>"
  by (simp add: processFile_def attempt_def example_config_fields example_isfile example_align_d
        Let_def)

lemma example_run:
  "run example_config example_environment clk (alignImages example_cv2)
     = (None,
        \<lparr>outputDirectory = ''out//'', fileNumber = 4, scaleFactor = - 1,
         aligned = Some (0, ''tgt/c.png warped'', ''ref/c.png + tgt/c.png warped''),
         logFile = [Details (header example_config example_environment clk [0, 2, -2] [0, 2, -2]),
                    Aligned ''a.png'' 100 100 0 1, Aligned ''c.png'' 100 100 0 1,
                    AlignError ''d.png'' cv2_error, Finished (finishTime clk)],
         written = [(''out/a.png'', ''tgt/a.png warped''),
                    (''out/overlap/a.png'', ''ref/a.png + tgt/a.png warped''),
                    (''out//c.png'', ''tgt/c.png warped''),
                    (''out//overlap/c.png'', ''ref/c.png + tgt/c.png warped'')],
         progressBar = [(0, 4, []), (1, 4, ''a.png''), (3, 4, ''c.png'')],
         alignCalls = [(100, 100, ''a.png''), (100, 100, ''c.png''), (100, 100, ''d.png'')]\<rparr>)"
proof -
  have b: "\<not> isfile example_environment (targetFilesDirectory example_config @ ''/'' @ ''b.png'')"
    by (simp add: example_config_fields example_isfile)
  show ?thesis
    by (simp add: run_def example_files example_config_fields example_ranges Let_def
          example_processFile_fit example_processFile_d processFile_skip [OF b] initial_def)
qed

section \<open>An exception of \<open>alignImages\<close> ends the search for the pair\<close>

text \<open>
  C2. The claim: an estimation failure at one threshold pair only makes the search try the
  next grid offset of the same image pair. In the run on four files the call for
  \<open>d.png\<close> at the offsets \<open>(0, 0)\<close> fails in the homography (no point pairs), the call
  at the next offsets \<open>(0, 2)\<close> would return the scale factor \<open>1\<close>, which is within the
  boundaries; \<open>alignImages\<close> is called once, the log gets the error record and nothing is
  written.
\<close>

theorem estimation_failure_counterexample:
  "alignImages example_cv2 100 100 ''tgt/'' ''ref/'' ''d.png'' = Inl cv2_error
   \<and> alignImages example_cv2 100 102 ''tgt/'' ''ref/'' ''d.png''
       = Inr (1, 0, ''tgt/d.png warped'', ''ref/d.png + tgt/d.png warped'')
   \<and> inBounds example_config 1
   \<and> tresholdRange 100 2 4 = Inr [0, 2, -2]
   \<and> processFile example_config example_environment (alignImages example_cv2)
         [0, 2, -2] [0, 2, -2] [''a.png'', ''b.png'', ''c.png'', ''d.png''] ''d.png''
         (initial example_config)
       = (initial example_config)
           \<lparr>fileNumber := 1, scaleFactor := - 1, alignCalls := [(100, 100, ''d.png'')],
             logFile := [AlignError ''d.png'' cv2_error]\<rparr>"
proof -
  have "alignImages example_cv2 100 102 ''tgt/'' ''ref/'' ''d.png''
       = Inr (1, 0, ''tgt/d.png warped'', ''ref/d.png + tgt/d.png warped'')"
    using example_align [of "''d.png''" 102 100] by simp
  then show ?thesis
    by (simp add: example_align_d example_config_fields example_ranges example_processFile_d
          initial_def)
qed

text \<open>
  C2, amended: an estimation failure is not fatal to the run, but it ends the search for
  the image pair. \<open>alignImages\<close> has no invalid result: it returns only if the homography
  and the similarity estimator both returned a result for the point lists of the matches,
  and raises otherwise. If, under a valid configuration and for a reference file with a
  target file, the calls for the cells \<open>pre\<close> return scale factors outside the boundaries
  and the call for the next cell \<open>c\<close> raises \<open>e\<close>, then \<open>alignImages\<close> is called for no
  further cell, the log gets the record \<open>Error aligning image\<close> with \<open>e\<close>, no image is
  written, the progress bar is not updated, the output directory is unchanged, and the
  loop goes on with the next reference file.
\<close>

theorem estimation_failure_ends_pair:
  assumes "valid_config cfg" "isfile env (targetFilesDirectory cfg @ ''/'' @ f)"
    and "List.product rr rt = pre @ c # post"
    and "\<forall>c' \<in> set pre. outOfBounds cfg al f c'"
    and "cellResult cfg al f c = Inl e"
  shows "logFile (processFile cfg env al rr rt files f st) = logFile st @ [AlignError f e]
       \<and> alignCalls (processFile cfg env al rr rt files f st)
           = alignCalls st @ map (cellCall cfg f) (pre @ [c])
       \<and> written (processFile cfg env al rr rt files f st) = written st
       \<and> progressBar (processFile cfg env al rr rt files f st) = progressBar st
       \<and> outputDirectory (processFile cfg env al rr rt files f st) = outputDirectory st
       \<and> fileNumber (processFile cfg env al rr rt files f st) = fileNumber st + 1
       \<and> processFiles cfg env al rr rt files (f # rest) st
           = processFiles cfg env al rr rt files rest (processFile cfg env al rr rt files f st)
       \<and> (\<forall>res. alignImages cv tr tt td rd f' = Inr res \<longrightarrow>
            (\<exists>timg rimg src dst mk M.
                imread cv (td @ f') = Some timg \<and> imread cv (rd @ f') = Some rimg
              \<and> matchFeatures cv (threshold cv (cvtColor cv timg) tt)
                    (threshold cv (cvtColor cv rimg) tr) = Inr (src, dst)
              \<and> findHomography cv src dst = Inr (Some mk)
              \<and> estimateAffinePartial2D cv src dst = Inr (Some M)))"
proof -
  from processFile_raise [OF assms, of files st] obtain sf a where
    "processFile cfg env al rr rt files f st
       = st\<lparr>fileNumber := fileNumber st + 1,
             alignCalls := alignCalls st @ map (cellCall cfg f) (pre @ [c]),
             scaleFactor := sf, aligned := a,
             logFile := logFile st @ [AlignError f e]\<rparr>" by blast
  then show ?thesis by (auto dest: alignImages_returns)
qed

theorem estimation_failure_ends_pair_witness:
  "valid_config second_config
   \<and> isfile example_environment (targetFilesDirectory second_config @ ''/'' @ ''d.png'')
   \<and> tresholdRange 98 2 4 = Inr [0, 2, -2]
   \<and> List.product [0, 2, -2] [0, 2, -2]
       = [(0, 0)] @ (0, 2) # [(0, -2), (2, 0), (2, 2), (2, -2), (-2, 0), (-2, 2), (-2, -2 :: int)]
   \<and> outOfBounds second_config (alignImages example_cv2) ''d.png'' (0, 0)
   \<and> cellResult second_config (alignImages example_cv2) ''d.png'' (0, 2) = Inl cv2_error
   \<and> logFile (processFile second_config example_environment (alignImages example_cv2)
         [0, 2, -2] [0, 2, -2] [''d.png''] ''d.png'' (initial second_config))
       = [AlignError ''d.png'' cv2_error]
   \<and> alignCalls (processFile second_config example_environment (alignImages example_cv2)
         [0, 2, -2] [0, 2, -2] [''d.png''] ''d.png'' (initial second_config))
       = [(100, 98, ''d.png''), (100, 100, ''d.png'')]
   \<and> written (processFile second_config example_environment (alignImages example_cv2)
         [0, 2, -2] [0, 2, -2] [''d.png''] ''d.png'' (initial second_config)) = []"
proof -
  have c: "tresholdReferenceImages second_config = 100" "tresholdTargetImages second_config = 98"
    "targetFilesDirectory second_config = ''tgt''" "referenceFilesDirectory second_config = ''ref''"
    by (simp_all add: second_config_def example_config_def)
  have h1: "valid_config second_config"
    by (simp add: second_config_def example_config_def valid_config_def)
  have h2: "isfile example_environment (targetFilesDirectory second_config @ ''/'' @ ''d.png'')"
    by (simp add: c example_isfile)
  have h3: "List.product [0, 2, -2] [0, 2, -2]
      = [(0, 0)] @ (0, 2) # [(0, -2), (2, 0), (2, 2), (2, -2), (-2, 0), (-2, 2), (-2, -2 :: int)]"
    by simp
  have "alignImages example_cv2 100 98 ''tgt/'' ''ref/'' ''d.png''
       = Inr (1, 0, ''tgt/d.png warped'', ''ref/d.png + tgt/d.png warped'')"
    using example_align [of "''d.png''" 98 100] by simp
  then have h4: "\<forall>c' \<in> set [(0, 0)]. outOfBounds second_config (alignImages example_cv2) ''d.png'' c'"
    by (simp add: outOfBounds_def cellResult_def c)
       (simp add: inBounds_def second_config_def example_config_def)
  have h5: "cellResult second_config (alignImages example_cv2) ''d.png'' (0, 2) = Inl cv2_error"
    by (simp add: cellResult_def c example_align_d)
  have r: "tresholdRange 98 2 4 = Inr [0, 2, -2]"
    by (simp add: tresholdRange_def py_range_def range_up.simps range_down.simps)
  note t = estimation_failure_ends_pair [OF h1 h2 h3 h4 h5,
      where files = "[''d.png'']" and st = "initial second_config :: string state"
        and rest = "[]" and cv = example_cv2 and tr = 100 and tt = 100
        and td = "''tgt/''" and rd = "''ref/''" and f' = "''d.png''"]
  have i: "logFile (initial second_config :: string state) = []"
    "alignCalls (initial second_config :: string state) = []"
    "written (initial second_config :: string state) = []"
    by (simp_all add: initial_def)
  from t have "logFile (processFile second_config example_environment (alignImages example_cv2)
         [0, 2, -2] [0, 2, -2] [''d.png''] ''d.png'' (initial second_config))
       = logFile (initial second_config :: string state) @ [AlignError ''d.png'' cv2_error]"
    and "alignCalls (processFile second_config example_environment (alignImages example_cv2)
         [0, 2, -2] [0, 2, -2] [''d.png''] ''d.png'' (initial second_config))
       = alignCalls (initial second_config :: string state)
           @ map (cellCall second_config ''d.png'') ([(0, 0)] @ [(0, 2)])"
    and "written (processFile second_config example_environment (alignImages example_cv2)
         [0, 2, -2] [0, 2, -2] [''d.png''] ''d.png'' (initial second_config))
       = written (initial second_config :: string state)"
    by blast+
  then have "logFile (processFile second_config example_environment (alignImages example_cv2)
         [0, 2, -2] [0, 2, -2] [''d.png''] ''d.png'' (initial second_config))
       = [AlignError ''d.png'' cv2_error]"
    and "alignCalls (processFile second_config example_environment (alignImages example_cv2)
         [0, 2, -2] [0, 2, -2] [''d.png''] ''d.png'' (initial second_config))
       = [(100, 98, ''d.png''), (100, 100, ''d.png'')]"
    and "written (processFile second_config example_environment (alignImages example_cv2)
         [0, 2, -2] [0, 2, -2] [''d.png''] ''d.png'' (initial second_config)) = []"
    by (simp_all add: i cellCall_def c)
  moreover from h4 have "outOfBounds second_config (alignImages example_cv2) ''d.png'' (0, 0)"
    by simp
  ultimately show ?thesis using h1 h2 h3 h5 r by blast
qed

section \<open>Two runs at different times\<close>




section \<open>The output directory\<close>

text \<open>
  C9. The claim: the output directory path is the same at the start of every pair's
  processing. Line 286, \<open>outputDirectory += "/"\<close>, is inside the loop: after the first
  aligned pair of the run on four files the variable is \<open>out/\<close>, after the second
  \<open>out//\<close>, and the images of \<open>c.png\<close> are written to \<open>out//c.png\<close> and
  \<open>out//overlap/c.png\<close>.
\<close>

theorem outputDirectory_grows:
  "outputDirectory (initial example_config :: string state) = ''out''
   \<and> outputDirectory
         (processFile example_config example_environment (alignImages example_cv2)
            [0, 2, -2] [0, 2, -2] [''a.png'', ''b.png'', ''c.png'', ''d.png''] ''a.png''
            (initial example_config))
       = ''out/''
   \<and> outputDirectory
         (snd (run example_config example_environment example_clock (alignImages example_cv2)))
       = ''out//''
   \<and> map fst (written
         (snd (run example_config example_environment example_clock (alignImages example_cv2))))
       = [''out/a.png'', ''out/overlap/a.png'', ''out//c.png'', ''out//overlap/c.png'']"
  by (simp add: example_run example_processFile_fit initial_def example_config_fields)

section \<open>Reference files without a target file\<close>



section \<open>Masks without keypoints\<close>

text \<open>
  \<open>alignImages\<close> hands the descriptors to the matcher as they are, \<open>None\<close> included, so
  what happens for a mask without keypoints is decided inside OpenCV: an exception of the
  matcher is an exception of \<open>alignImages\<close>; if the matcher returns, with indices into the
  keypoint lists, its result is empty, sorting and truncation leave it empty, and both
  point lists are empty.
\<close>

lemma matchFeatures_raises:
  assumes "detectAndCompute cv g1 = (kp1, d1)" "detectAndCompute cv g2 = (kp2, d2)"
    and "bfMatch cv d1 d2 = Inl e"
  shows "matchFeatures cv g1 g2 = Inl e"
  using assms by (simp add: matchFeatures_def)

lemma matchFeatures_no_keypoints:
  assumes "detectAndCompute cv g1 = (kp1, d1)" "detectAndCompute cv g2 = (kp2, d2)"
    and "kp1 = [] \<or> kp2 = []"
    and "bfMatch cv d1 d2 = Inr ms"
    and "\<forall>m \<in> set ms. queryIdx m < length kp1 \<and> trainIdx m < length kp2"
  shows "matchFeatures cv g1 g2 = Inr ([], [])"
proof -
  have "ms = []"
  proof (cases ms)
    case Nil
    then show ?thesis .
  next
    case (Cons m rest)
    with assms(5) have "queryIdx m < length kp1 \<and> trainIdx m < length kp2" by simp
    with assms(3) show ?thesis by auto
  qed
  with assms(1,2,4) show ?thesis by (simp add: matchFeatures_def topMatches_take)
qed

end
